theory Spec2Isabelle
  imports Main "HOL-Library.Sublist" "HOL-Library.Word"
begin

section \<open>Errors\<close>

text \<open>
  Go errors as values. \<open>Cause\<close> is an error made by \<open>errors.New\<close>, by \<open>fmt.Errorf\<close>
  without \<open>%w\<close>, or handed back by a library; \<open>Wrap msg e\<close> is
  \<open>fmt.Errorf("msg: %w", e)\<close>. A function returning \<open>error\<close> returns \<open>err option\<close>
  (\<open>None\<close> is \<open>nil\<close>); a function returning \<open>(T, error)\<close> returns \<open>err + T\<close>.
\<close>

datatype err = Cause string | Wrap string err

text \<open>The text of an error, as \<open>Error()\<close> prints it.\<close>

fun err_text :: "err \<Rightarrow> string" where
  "err_text (Cause m) = m"
| "err_text (Wrap m e) = m @ '': '' @ err_text e"

text \<open>A run-time panic of the Go program.\<close>

datatype panic = NilInterfaceConversion | NilPointerDereference

section \<open>The event trace collector (package gadgets)\<close>

text \<open>
  \<open>containercollection.Container\<close>: the fields the collectors read. The pointer
  \<open>*Container\<close> is a \<open>Container option\<close>, \<open>None\<close> for \<open>nil\<close>.
\<close>

record Container =
  Namespace :: string
  Podname :: string
  Name :: string
  Pid :: nat
  HostNetwork :: bool

text \<open>
  The clock: \<open>now n\<close> is \<open>time.Now().Format(time.RFC3339Nano)\<close> at the \<open>n\<close>-th reading
  of the clock since the collector was built. The collector state carries the number of
  readings made so far beside the \<open>sync.Map\<close> of buckets (trace name to event key to
  event content).
\<close>

type_synonym clock = "nat \<Rightarrow> string"

type_synonym bucket = "string \<rightharpoonup> string"

record IGTraceContainerCollector =
  data :: "string \<rightharpoonup> bucket"
  readings :: nat

definition NewIGTraceContainerCollector :: IGTraceContainerCollector where
  "NewIGTraceContainerCollector = \<lparr>data = Map.empty, readings = 0\<rparr>"

text \<open>
  \<open>info\<close> with the timestamp it read:
  \<^verbatim>\<open>fmt.Sprintf("%s /namespaces/%s/pods/%s/containers/%s ", Namespace, Podname, Name, now)\<close>,
  or the timestamp alone for a nil container.
\<close>

definition info :: "Container option \<Rightarrow> string \<Rightarrow> string" where
  "info container stamp =
     (case container of
        None \<Rightarrow> stamp
      | Some c \<Rightarrow> Namespace c @ '' /namespaces/'' @ Podname c @ ''/pods/'' @ Name c
                  @ ''/containers/'' @ stamp @ '' '')"

text \<open>
  \<open>PublishEvent\<close>. The argument of \<open>LoadOrStore\<close> is evaluated before the call, so
  \<open>info\<close> reads the clock once in every case; when the bucket was already there
  (\<open>loaded\<close>), \<open>info\<close> reads the clock a second time and the event is stored in the
  loaded bucket under that second key.
\<close>

definition PublishEvent ::
  "clock \<Rightarrow> string \<Rightarrow> Container option \<Rightarrow> string \<Rightarrow>
   IGTraceContainerCollector \<Rightarrow> IGTraceContainerCollector" where
  "PublishEvent now traceName container eventDetails s =
     (let k1 = info container (now (readings s));
          s1 = s\<lparr>readings := Suc (readings s)\<rparr>
      in case data s1 traceName of
           None \<Rightarrow> s1\<lparr>data := (data s1)(traceName \<mapsto> [k1 \<mapsto> eventDetails])\<rparr>
         | Some events \<Rightarrow>
             (let k2 = info container (now (readings s1));
                  s2 = s1\<lparr>readings := Suc (readings s1)\<rparr>
              in s2\<lparr>data := (data s2)(traceName \<mapsto> events(k2 \<mapsto> eventDetails))\<rparr>))"

text \<open>
  \<open>GetTracerData\<close>: \<open>Load\<close> gives a nil interface for an absent name, and the
  unchecked type assertion \<open>events.(map[string]string)\<close> panics on it.
\<close>

definition GetTracerData :: "IGTraceContainerCollector \<Rightarrow> string \<Rightarrow> panic + bucket" where
  "GetTracerData s tracerName =
     (case data s tracerName of
        None \<Rightarrow> Inl NilInterfaceConversion
      | Some events \<Rightarrow> Inr events)"

text \<open>
  Two notions read off \<open>PublishEvent\<close>, used to state what it does: the bucket of a
  trace name as a map (empty while the name is absent), and the key under which the
  next event of a trace is stored.
\<close>

definition bucket_of :: "IGTraceContainerCollector \<Rightarrow> string \<Rightarrow> bucket" where
  "bucket_of s traceName = (case data s traceName of None \<Rightarrow> Map.empty | Some b \<Rightarrow> b)"

definition event_key ::
  "clock \<Rightarrow> string \<Rightarrow> Container option \<Rightarrow> IGTraceContainerCollector \<Rightarrow> string" where
  "event_key now traceName container s =
     (case data s traceName of
        None \<Rightarrow> info container (now (readings s))
      | Some _ \<Rightarrow> info container (now (Suc (readings s))))"

text \<open>A run of publications, in order: (trace name, container, content).\<close>

fun publish_all ::
  "clock \<Rightarrow> (string \<times> Container option \<times> string) list \<Rightarrow>
   IGTraceContainerCollector \<Rightarrow> IGTraceContainerCollector" where
  "publish_all now [] s = s"
| "publish_all now ((traceName, container, eventDetails) # evs) s =
     publish_all now evs (PublishEvent now traceName container eventDetails s)"

section \<open>Configuration (package utils)\<close>

record RuntimeInfo =
  OSIdentifier :: string
  HostNodeName :: string
  CollectorList :: "string list"
  KubernetesObjects :: "string list"
  NodeLogs :: "string list"
  ContainerLogsNamespaces :: "string list"
  StorageAccountName :: string
  StorageSasKey :: string
  StorageContainerName :: string
  StorageSasKeyType :: string

section \<open>The DNS and TCP trace collectors (package collector)\<close>

text \<open>
  An event of the tracing library (\<open>dnstypes.Event\<close>, \<open>tcptypes.Event\<close>): the four
  fields of its \<open>CommonData\<close> that a callback may set, and the rest of the event, which
  the collectors never look at. The library's \<open>eventtypes.EventString\<close> is a parameter
  \<open>EventString\<close> of the callbacks.
\<close>

record 'p Event =
  event_Node :: string
  event_Namespace :: string
  event_Pod :: string
  event_Container :: string
  event_rest :: 'p

definition InspektorGadgetDNSTraceCollector_GetName :: string where
  "InspektorGadgetDNSTraceCollector_GetName = ''ig-dnstrace''"

definition InspektorGadgetTCPTraceCollector_GetName :: string where
  "InspektorGadgetTCPTraceCollector_GetName = ''ig-tcptrace''"

text \<open>
  \<open>dnsEventCallback\<close>, the closure of the DNS collector's \<open>Collect\<close>. It reads
  \<open>container.HostNetwork\<close> through the pointer, which panics on nil.
\<close>

definition dnsEventCallback ::
  "clock \<Rightarrow> ('p Event \<Rightarrow> string) \<Rightarrow> RuntimeInfo \<Rightarrow> Container option \<Rightarrow> 'p Event \<Rightarrow>
   IGTraceContainerCollector \<Rightarrow> panic + IGTraceContainerCollector" where
  "dnsEventCallback now EventString runtimeInfo container event s =
     (let event1 = event\<lparr>event_Node := HostNodeName runtimeInfo\<rparr>
      in case container of
           None \<Rightarrow> Inl NilPointerDereference
         | Some c \<Rightarrow>
             (let event2 =
                    (if \<not> HostNetwork c
                     then event1\<lparr>event_Namespace := Namespace c,
                                 event_Pod := Podname c,
                                 event_Container := Name c\<rparr>
                     else event1)
              in Inr (PublishEvent now InspektorGadgetDNSTraceCollector_GetName container
                        (EventString event2) s)))"

text \<open>\<open>tcpEventCallback\<close>, the closure of the TCP collector's \<open>Collect\<close>.\<close>

definition tcpEventCallback ::
  "clock \<Rightarrow> ('p Event \<Rightarrow> string) \<Rightarrow> 'p Event \<Rightarrow>
   IGTraceContainerCollector \<Rightarrow> IGTraceContainerCollector" where
  "tcpEventCallback now EventString event s =
     PublishEvent now InspektorGadgetTCPTraceCollector_GetName None (EventString event) s"

text \<open>
  The enrichment as the specification words it, to compare the callbacks with: the host
  node identity always, and the namespace, pod and container names of the originating
  container when it is not host-network.
\<close>

definition spec_enriched :: "RuntimeInfo \<Rightarrow> Container option \<Rightarrow> 'p Event \<Rightarrow> 'p Event" where
  "spec_enriched runtimeInfo container event =
     (case container of
        None \<Rightarrow> event\<lparr>event_Node := HostNodeName runtimeInfo\<rparr>
      | Some c \<Rightarrow>
          if HostNetwork c then event\<lparr>event_Node := HostNodeName runtimeInfo\<rparr>
          else event\<lparr>event_Node := HostNodeName runtimeInfo,
                     event_Namespace := Namespace c,
                     event_Pod := Podname c,
                     event_Container := Name c\<rparr>)"

subsection \<open>Resources and deferred calls\<close>

text \<open>
  What a \<open>Collect\<close> does to the node is a list of effects in the order they happen.
  A function frame holds the effects so far and the stack of deferred closes, the last
  deferred on top; returning runs the stack from the top, as Go does.
\<close>

datatype resource = ContainerCollection | DNSTracer | Connection | CoreTracer | StandardTracer

datatype effect = Acquired resource | Closed resource | WaiterReturned

record frame =
  effects :: "effect list"
  deferred :: "resource list"

definition acquire_defer :: "resource \<Rightarrow> frame \<Rightarrow> frame" where
  "acquire_defer r fr = \<lparr>effects = effects fr @ [Acquired r], deferred = r # deferred fr\<rparr>"

definition run_deferred :: "frame \<Rightarrow> effect list" where
  "run_deferred fr = effects fr @ map Closed (deferred fr)"

text \<open>
  How a call of \<open>Collect\<close> ends: it returns its error (\<open>None\<close> for nil), or the process
  dies of a panic raised in a probe callback, which runs outside \<open>Collect\<close>'s own
  goroutine, so that no deferred call of \<open>Collect\<close> runs.
\<close>

datatype outcome = Returned "err option" | Crashed panic

text \<open>
  The outcomes of the library calls a \<open>Collect\<close> makes are its environment:
  \<open>rlimit.RemoveMemlock\<close> and \<open>ContainerCollection.Initialize\<close> for both collectors.
\<close>

record cc_env =
  RemoveMemlock :: "err option"
  Initialize :: "err option"

definition InitContainerCollection :: "'e cc_env_scheme \<Rightarrow> err + resource" where
  "InitContainerCollection env =
     (case RemoveMemlock env of
        Some err \<Rightarrow> Inl (Wrap ''failed to remove memlock'' err)
      | None \<Rightarrow>
          (case Initialize env of
             Some err \<Rightarrow> Inl (Wrap ''failed to initialize container collection'' err)
           | None \<Rightarrow> Inr ContainerCollection))"

subsection \<open>The DNS collector\<close>

text \<open>
  \<open>NewTracer\<close> is \<open>tracer.NewTracer()\<close>, \<open>ConnectToContainerCollection\<close> the call of
  \<open>networktracer\<close>; \<open>delivered\<close> are the events the probe hands to the callback, in
  order, while the waiter runs.
\<close>

record 'p dns_env = cc_env +
  NewTracer :: "err option"
  ConnectToContainerCollection :: "err option"
  delivered :: "(Container option \<times> 'p Event) list"

fun deliver_dns ::
  "clock \<Rightarrow> ('p Event \<Rightarrow> string) \<Rightarrow> RuntimeInfo \<Rightarrow> (Container option \<times> 'p Event) list \<Rightarrow>
   IGTraceContainerCollector \<Rightarrow> panic option \<times> IGTraceContainerCollector" where
  "deliver_dns now EventString runtimeInfo [] s = (None, s)"
| "deliver_dns now EventString runtimeInfo ((container, event) # rest) s =
     (case dnsEventCallback now EventString runtimeInfo container event s of
        Inl p \<Rightarrow> (Some p, s)
      | Inr s' \<Rightarrow> deliver_dns now EventString runtimeInfo rest s')"

definition InspektorGadgetDNSTraceCollector_Collect ::
  "clock \<Rightarrow> ('p Event \<Rightarrow> string) \<Rightarrow> RuntimeInfo \<Rightarrow> 'p dns_env \<Rightarrow>
   IGTraceContainerCollector \<Rightarrow> outcome \<times> IGTraceContainerCollector \<times> effect list" where
  "InspektorGadgetDNSTraceCollector_Collect now EventString runtimeInfo env s =
     (case InitContainerCollection env of
        Inl err \<Rightarrow>
          (Returned (Some (Wrap ''failed to initialize container collection'' err)), s, [])
      | Inr containerCollection \<Rightarrow>
          (let fr1 = acquire_defer containerCollection \<lparr>effects = [], deferred = []\<rparr>
           in case NewTracer env of
                Some err \<Rightarrow>
                  (Returned (Some (Wrap ''failed to start dns tracer'' err)), s, run_deferred fr1)
              | None \<Rightarrow>
                  (let fr2 = acquire_defer DNSTracer fr1
                   in case ConnectToContainerCollection env of
                        Some err \<Rightarrow>
                          (Returned (Some (Wrap ''failed to connect network tracer - dns tracer'' err)),
                           s, run_deferred fr2)
                      | None \<Rightarrow>
                          (let fr3 = acquire_defer Connection fr2
                           in case deliver_dns now EventString runtimeInfo (delivered env) s of
                                (Some p, s') \<Rightarrow> (Crashed p, s', effects fr3)
                              | (None, s') \<Rightarrow>
                                  (Returned None, s',
                                   run_deferred
                                     (fr3\<lparr>effects := effects fr3 @ [WaiterReturned]\<rparr>))))))"

subsection \<open>The TCP collector\<close>

text \<open>
  \<open>tcptracer_NewTracer\<close> is the in-kernel tracer's constructor,
  \<open>standardtracer_NewTracer\<close> the fallback's; \<open>tcp_delivered\<close> are the events handed to
  the callback while the waiter runs. The callback here cannot panic.
\<close>

record 'p tcp_env = cc_env +
  tcptracer_NewTracer :: "err option"
  standardtracer_NewTracer :: "err option"
  tcp_delivered :: "'p Event list"

definition InspektorGadgetTCPTraceCollector_Collect ::
  "clock \<Rightarrow> ('p Event \<Rightarrow> string) \<Rightarrow> 'p tcp_env \<Rightarrow>
   IGTraceContainerCollector \<Rightarrow> outcome \<times> IGTraceContainerCollector \<times> effect list" where
  "InspektorGadgetTCPTraceCollector_Collect now EventString env s =
     (case InitContainerCollection env of
        Inl err \<Rightarrow>
          (Returned (Some (Wrap ''failed to initialize container collection'' err)), s, [])
      | Inr containerCollection \<Rightarrow>
          (let fr1 = acquire_defer containerCollection \<lparr>effects = [], deferred = []\<rparr>;
               tracer =
                 (case tcptracer_NewTracer env of
                    None \<Rightarrow> Inr CoreTracer
                  | Some _ \<Rightarrow>
                      (case standardtracer_NewTracer env of
                         None \<Rightarrow> Inr StandardTracer
                       | Some err \<Rightarrow> Inl err))
           in case tracer of
                Inl err \<Rightarrow>
                  (Returned (Some (Wrap ''failed to create a tracer'' err)), s, run_deferred fr1)
              | Inr tr \<Rightarrow>
                  (let fr2 = acquire_defer tr fr1;
                       s' = fold (tcpEventCallback now EventString) (tcp_delivered env) s
                   in (Returned None, s',
                       run_deferred (fr2\<lparr>effects := effects fr2 @ [WaiterReturned]\<rparr>)))))"

text \<open>Reading the effects: what was acquired and what was closed, each in order.\<close>

fun acquired :: "effect list \<Rightarrow> resource list" where
  "acquired [] = []"
| "acquired (Acquired r # es) = r # acquired es"
| "acquired (_ # es) = acquired es"

fun closed :: "effect list \<Rightarrow> resource list" where
  "closed [] = []"
| "closed (Closed r # es) = r # closed es"
| "closed (_ # es) = closed es"

section \<open>The exporter (package exporter)\<close>

record AzureBlobExporter =
  runtimeInfo :: RuntimeInfo
  creationTime :: string

datatype StorageKeyType = StorageKeyType_Container

definition storageKeyTypes :: "string \<rightharpoonup> StorageKeyType" where
  "storageKeyTypes = [''Container'' \<mapsto> StorageKeyType_Container]"

text \<open>
  The calls that reach the storage service, in order, and the outcomes the service and
  the libraries give: \<open>GetStorageEndpointSuffix\<close> is the value of
  \<open>utils.GetStorageEndpointSuffix(knownFilePaths)\<close>, \<open>url_Parse\<close> the error of
  \<open>url.Parse\<close> on a text, \<open>ContainerURL_Create\<close> the error of the container creation
  (a \<open>StorageError\<close> carries a service code), \<open>UploadStreamToBlockBlob\<close> the error of
  an upload by blob name and content.
\<close>

datatype net_call = CreateContainer string | UploadBlob string string

datatype ServiceCode = ServiceCodeContainerAlreadyExists | ServiceCodeOther string

datatype create_error = StorageError ServiceCode err | OtherError err

record export_env =
  GetStorageEndpointSuffix :: string
  url_Parse :: "string \<Rightarrow> err option"
  ContainerURL_Create :: "create_error option"
  UploadStreamToBlockBlob :: "string \<Rightarrow> string \<Rightarrow> err option"

definition createContainerURL ::
  "export_env \<Rightarrow> RuntimeInfo \<Rightarrow> (err + string) \<times> net_call list" where
  "createContainerURL env rt =
     (if StorageAccountName rt = [] \<or> StorageSasKey rt = [] \<or> StorageContainerName rt = []
      then (Inl (Cause ''Storage not configured.''), [])
      else
        (let url = ''https://'' @ StorageAccountName rt @ ''.blob.''
                     @ GetStorageEndpointSuffix env @ ''/'' @ StorageContainerName rt
                     @ StorageSasKey rt
         in case url_Parse env url of
              Some err \<Rightarrow> (Inl (Wrap ''build blob container url'' err), [])
            | None \<Rightarrow>
                (case storageKeyTypes (StorageSasKeyType rt) of
                   Some _ \<Rightarrow> (Inr url, [])
                 | None \<Rightarrow>
                     (case ContainerURL_Create env of
                        None \<Rightarrow> (Inr url, [CreateContainer url])
                      | Some (StorageError code err) \<Rightarrow>
                          (case code of
                             ServiceCodeContainerAlreadyExists \<Rightarrow> (Inr url, [CreateContainer url])
                           | ServiceCodeOther _ \<Rightarrow>
                               (Inl (Wrap ''create container with storage error'' err),
                                [CreateContainer url]))
                      | Some (OtherError err) \<Rightarrow>
                          (Inl (Wrap ''create container'' err), [CreateContainer url])))))"

text \<open>
  The blob name of an item:
  \<^verbatim>\<open>fmt.Sprintf("%s/%s/%s", strings.Replace(creationTime, ":", "-", -1), HostNodeName, key)\<close>.
\<close>

definition blob_name :: "AzureBlobExporter \<Rightarrow> string \<Rightarrow> string" where
  "blob_name exporter key =
     map (\<lambda>c. if c = CHR '':'' then CHR ''-'' else c) (creationTime exporter)
       @ ''/'' @ HostNodeName (runtimeInfo exporter) @ ''/'' @ key"

text \<open>
  The loop of \<open>Export\<close> over \<open>producer.GetData()\<close>. Go ranges over the map in an order of
  its own choosing, so the items are the list of the map's entries in the order of this
  run.
\<close>

fun Export_loop ::
  "export_env \<Rightarrow> AzureBlobExporter \<Rightarrow> (string \<times> string) list \<Rightarrow> err option \<times> net_call list" where
  "Export_loop env exporter [] = (None, [])"
| "Export_loop env exporter ((key, content) # rest) =
     (let blobURL = blob_name exporter key
      in case UploadStreamToBlockBlob env blobURL content of
           Some err \<Rightarrow>
             (Some (Wrap (''append file '' @ key @ '' to blob'') err), [UploadBlob blobURL content])
         | None \<Rightarrow>
             (let (r, calls) = Export_loop env exporter rest
              in (r, UploadBlob blobURL content # calls)))"

definition Export ::
  "export_env \<Rightarrow> AzureBlobExporter \<Rightarrow> (string \<times> string) list \<Rightarrow> err option \<times> net_call list" where
  "Export env exporter items =
     (case createContainerURL env (runtimeInfo exporter) of
        (Inl err, calls) \<Rightarrow> (Some err, calls)
      | (Inr containerURL, calls) \<Rightarrow>
          (let (r, uploads) = Export_loop env exporter items in (r, calls @ uploads)))"

definition ExportReader ::
  "export_env \<Rightarrow> AzureBlobExporter \<Rightarrow> string \<Rightarrow> string \<Rightarrow> err option \<times> net_call list" where
  "ExportReader env exporter name reader =
     (case createContainerURL env (runtimeInfo exporter) of
        (Inl err, calls) \<Rightarrow> (Some err, calls)
      | (Inr containerURL, calls) \<Rightarrow>
          (let blobUrl = blob_name exporter name
           in (UploadStreamToBlockBlob env blobUrl reader, calls @ [UploadBlob blobUrl reader])))"

section \<open>The system performance collector (package collector)\<close>

text \<open>
  Modelled from the spec: \<open>utils.Contains\<close> is not among the sources; by its name, its
  use in \<open>CheckSupported\<close> and the scenario of the exclusion list it is membership in a
  list of strings.
\<close>

definition Contains :: "string list \<Rightarrow> string \<Rightarrow> bool" where
  "Contains flagsList flag = (flag \<in> set flagsList)"

text \<open>\<open>strings.Join\<close>.\<close>

fun Join :: "string list \<Rightarrow> string \<Rightarrow> string" where
  "Join [] sep = []"
| "Join [x] sep = x"
| "Join (x # y # ys) sep = x @ sep @ Join (y # ys) sep"

definition SystemPerfCollector_CheckSupported :: "RuntimeInfo \<Rightarrow> err option" where
  "SystemPerfCollector_CheckSupported rt =
     (if Contains (CollectorList rt) ''connectedCluster''
      then Some (Cause (''Not included because 'connectedCluster' is in COLLECTOR_LIST variable. Included values: ''
                        @ Join (CollectorList rt) '' ''))
      else None)"

type_synonym int64 = "64 word"

record NodeMetrics =
  NodeName :: string
  CPUUsage :: int64
  MemoryUsage :: int64

record PodMetrics =
  ContainerName :: string
  pod_CPUUsage :: int64
  pod_MemoryUsage :: int64

text \<open>
  What the metrics API gives for a node or a container: its name, \<open>Usage.Cpu().MilliValue()\<close>
  and the pair \<open>Usage.Memory().AsInt64()\<close> returns (the value, and whether the quantity
  fits an \<open>int64\<close>).
\<close>

record usage =
  usage_Name :: string
  Cpu_MilliValue :: int64
  Memory_AsInt64 :: "int64 \<times> bool"

text \<open>
  The environment of \<open>Collect\<close>: the error of \<open>metrics.NewForConfig\<close>, the two listings
  (the pods as the list of each pod's containers) and \<open>json.Marshal\<close> on the two result
  lists.
\<close>

record perf_env =
  NewForConfig :: "err option"
  NodeMetricses_List :: "err + usage list"
  PodMetricses_List :: "err + usage list list"
  Marshal_NodeMetrics :: "NodeMetrics list \<Rightarrow> err + string"
  Marshal_PodMetrics :: "PodMetrics list \<Rightarrow> err + string"

text \<open>The node loop; \<open>None\<close> when it leaves the function at \<open>if !ok { return err }\<close>.\<close>

fun node_loop :: "usage list \<Rightarrow> NodeMetrics list \<Rightarrow> NodeMetrics list option" where
  "node_loop [] noderesult = Some noderesult"
| "node_loop (nodeMetric # rest) noderesult =
     (let cpuQuantity = Cpu_MilliValue nodeMetric;
          (memQuantity, ok) = Memory_AsInt64 nodeMetric
      in if \<not> ok then None
         else node_loop rest
                (noderesult @ [\<lparr>NodeName = usage_Name nodeMetric, CPUUsage = cpuQuantity,
                                 MemoryUsage = memQuantity\<rparr>]))"

text \<open>The loops over the pods and over a pod's containers; \<open>None\<close> at \<open>!ok\<close>.\<close>

fun container_loop :: "usage list \<Rightarrow> PodMetrics list \<Rightarrow> PodMetrics list option" where
  "container_loop [] podresult = Some podresult"
| "container_loop (container # rest) podresult =
     (let cpuQuantity = Cpu_MilliValue container;
          (memQuantity, ok) = Memory_AsInt64 container
      in if \<not> ok then None
         else container_loop rest
                (podresult @ [\<lparr>ContainerName = usage_Name container, pod_CPUUsage = cpuQuantity,
                                pod_MemoryUsage = memQuantity\<rparr>]))"

fun pod_loop :: "usage list list \<Rightarrow> PodMetrics list \<Rightarrow> PodMetrics list option" where
  "pod_loop [] podresult = Some podresult"
| "pod_loop (podContainers # rest) podresult =
     (case container_loop podContainers podresult of
        None \<Rightarrow> None
      | Some podresult' \<Rightarrow> pod_loop rest podresult')"

text \<open>
  \<open>Collect\<close>, with the collector's \<open>data\<close> map passed in and returned. The variable
  \<open>err\<close> is nil after the successful listing of the nodes, and the node loop returns that
  variable. In the pod loop \<open>fmt.Errorf\<close> is given a nil error for \<open>%w\<close> and makes an
  error with the text below.
\<close>

definition SystemPerfCollector_Collect ::
  "perf_env \<Rightarrow> (string \<rightharpoonup> string) \<Rightarrow> err option \<times> (string \<rightharpoonup> string)" where
  "SystemPerfCollector_Collect env dat =
     (case NewForConfig env of
        Some err \<Rightarrow> (Some (Wrap ''metrics for config error'' err), dat)
      | None \<Rightarrow>
          (case NodeMetricses_List env of
             Inl err \<Rightarrow> (Some (Wrap ''node metrics error'' err), dat)
           | Inr nodeMetrics \<Rightarrow>
               (let err = (None :: err option)
                in case node_loop nodeMetrics [] of
                     None \<Rightarrow> (err, dat)
                   | Some noderesult \<Rightarrow>
                       (case Marshal_NodeMetrics env noderesult of
                          Inl err \<Rightarrow> (Some (Wrap ''marshall node metrics to json'' err), dat)
                        | Inr jsonNodeResult \<Rightarrow>
                            (let dat1 = dat(''nodes'' \<mapsto> jsonNodeResult)
                             in case PodMetricses_List env of
                                  Inl err \<Rightarrow> (Some (Wrap ''pod metrics failure'' err), dat1)
                                | Inr podMetrics \<Rightarrow>
                                    (case pod_loop podMetrics [] of
                                       None \<Rightarrow>
                                         (Some (Cause ''usage memory failure: %!w(<nil>)''), dat1)
                                     | Some podresult \<Rightarrow>
                                         (case Marshal_PodMetrics env podresult of
                                            Inl err \<Rightarrow>
                                              (Some (Wrap ''marshall pod metrics to json'' err), dat1)
                                          | Inr jsonPodResult \<Rightarrow>
                                              (None, dat1(''pods'' \<mapsto> jsonPodResult)))))))))"

section \<open>Facts about publishing\<close>

lemma PublishEvent_data:
  "data (PublishEvent now tn c e s) =
     (data s)(tn \<mapsto> (bucket_of s tn)(event_key now tn c s \<mapsto> e))"
  by (simp add: PublishEvent_def bucket_of_def event_key_def Let_def split: option.splits)

lemma PublishEvent_bucket_same:
  "bucket_of (PublishEvent now tn c e s) tn = (bucket_of s tn)(event_key now tn c s \<mapsto> e)"
  by (simp add: bucket_of_def [of "PublishEvent now tn c e s"] PublishEvent_data)

lemma PublishEvent_bucket_other:
  "tn' \<noteq> tn \<Longrightarrow> bucket_of (PublishEvent now tn c e s) tn' = bucket_of s tn'"
  by (simp add: bucket_of_def PublishEvent_data)

lemma PublishEvent_dom: "dom (data (PublishEvent now tn c e s)) = insert tn (dom (data s))"
  by (simp add: PublishEvent_data)

lemma GetTracerData_published:
  "GetTracerData (PublishEvent now tn c e s) tn =
     Inr ((bucket_of s tn)(event_key now tn c s \<mapsto> e))"
  by (simp add: GetTracerData_def PublishEvent_data)

lemma event_key_fresh:
  "data s tn = None \<Longrightarrow> event_key now tn c s = info c (now (readings s))"
  by (simp add: event_key_def)

lemma event_key_loaded:
  "data s tn = Some b \<Longrightarrow> event_key now tn c s = info c (now (Suc (readings s)))"
  by (simp add: event_key_def)

lemma bucket_of_fresh: "data s tn = None \<Longrightarrow> bucket_of s tn = Map.empty"
  by (simp add: bucket_of_def)

section \<open>Claims about the event trace collector\<close>

text \<open>
  C1. Two events published for one trace and one container whose derived keys are
  identical (both fall into the same timestamp-resolution window) leave one entry for
  them in the bucket, and its content is the later content: the bucket is the bucket
  from before with that one key set to the second content, and on a collector that had
  no bucket for the trace it is exactly that single entry. The instance after it
  publishes twice under a clock that does not advance.
\<close>

theorem publish_same_key_later_wins:
  assumes s1: "s1 = PublishEvent now tn c e1 s"
      and s2: "s2 = PublishEvent now tn c e2 s1"
      and k1: "event_key now tn c s = k"
      and k2: "event_key now tn c s1 = k"
  shows "GetTracerData s2 tn = Inr ((bucket_of s tn)(k \<mapsto> e2)) \<and>
         (data s tn = None \<longrightarrow> GetTracerData s2 tn = Inr [k \<mapsto> e2])"
proof -
  have "bucket_of s1 tn = (bucket_of s tn)(k \<mapsto> e1)"
    using k1 by (simp add: s1 PublishEvent_bucket_same)
  then have "GetTracerData s2 tn = Inr ((bucket_of s tn)(k \<mapsto> e2))"
    using k2 by (simp add: s2 GetTracerData_published)
  then show ?thesis
    by (simp add: bucket_of_fresh)
qed

theorem publish_same_key_later_wins_witness:
  "GetTracerData
     (PublishEvent (\<lambda>n. ''2022-11-03T10:00:00.000000001Z'') ''ig-dnstrace''
        (Some \<lparr>Namespace = ''kube-system'', Podname = ''coredns-1'', Name = ''coredns'',
               Pid = 4242, HostNetwork = False\<rparr>) ''second''
        (PublishEvent (\<lambda>n. ''2022-11-03T10:00:00.000000001Z'') ''ig-dnstrace''
           (Some \<lparr>Namespace = ''kube-system'', Podname = ''coredns-1'', Name = ''coredns'',
                  Pid = 4242, HostNetwork = False\<rparr>) ''first''
           NewIGTraceContainerCollector))
     ''ig-dnstrace''
   = Inr [''kube-system /namespaces/coredns-1/pods/coredns/containers/2022-11-03T10:00:00.000000001Z ''
            \<mapsto> ''second'']"
  using publish_same_key_later_wins
    [of "PublishEvent (\<lambda>n. ''2022-11-03T10:00:00.000000001Z'') ''ig-dnstrace''
           (Some \<lparr>Namespace = ''kube-system'', Podname = ''coredns-1'', Name = ''coredns'',
                  Pid = 4242, HostNetwork = False\<rparr>) ''first''
           NewIGTraceContainerCollector"
        "\<lambda>n. ''2022-11-03T10:00:00.000000001Z''" "''ig-dnstrace''"
        "Some \<lparr>Namespace = ''kube-system'', Podname = ''coredns-1'', Name = ''coredns'',
               Pid = 4242, HostNetwork = False\<rparr>"
        "''first''" NewIGTraceContainerCollector _ "''second''"
        "''kube-system /namespaces/coredns-1/pods/coredns/containers/2022-11-03T10:00:00.000000001Z ''"]
  by (simp add: event_key_def info_def bucket_of_def PublishEvent_data NewIGTraceContainerCollector_def)

lemma append_sep_eq_iff:
  "x \<notin> set xs \<Longrightarrow> x \<notin> set xs' \<Longrightarrow>
   (xs @ x # ys = xs' @ x # ys') = (xs = xs' \<and> ys = ys')"
proof (induction xs arbitrary: xs')
  case Nil
  then show ?case by (cases xs') auto
next
  case (Cons a xs)
  then show ?case by (cases xs') auto
qed

lemma info_Some_inject:
  assumes "CHR '' '' \<notin> set (Namespace c1)" and "CHR '' '' \<notin> set (Namespace c2)"
      and "CHR ''/'' \<notin> set (Podname c1)" and "CHR ''/'' \<notin> set (Podname c2)"
      and "CHR ''/'' \<notin> set (Name c1)" and "CHR ''/'' \<notin> set (Name c2)"
      and "info (Some c1) t1 = info (Some c2) t2"
  shows "Namespace c1 = Namespace c2 \<and> Podname c1 = Podname c2 \<and> Name c1 = Name c2 \<and> t1 = t2"
  using assms by (simp add: info_def append_sep_eq_iff)

text \<open>
  C2, amended. The key is built from the namespace, the pod name, the container name and
  the timestamp; the process id is no part of it. For containers named as Kubernetes
  names them (no space in the namespace, no slash in the pod and container names), two
  containers that differ in namespace, pod name or container name get different keys
  whatever the two timestamps are, so two events published for one trace stand as two
  entries of the bucket, each with its own content.
\<close>

theorem publish_distinct_containers_two_entries:
  assumes s1: "s1 = PublishEvent now tn (Some c1) e1 s"
      and s2: "s2 = PublishEvent now tn (Some c2) e2 s1"
      and k1: "k1 = event_key now tn (Some c1) s"
      and k2: "k2 = event_key now tn (Some c2) s1"
      and ns: "CHR '' '' \<notin> set (Namespace c1)" "CHR '' '' \<notin> set (Namespace c2)"
      and pod: "CHR ''/'' \<notin> set (Podname c1)" "CHR ''/'' \<notin> set (Podname c2)"
      and name: "CHR ''/'' \<notin> set (Name c1)" "CHR ''/'' \<notin> set (Name c2)"
      and differ: "(Namespace c1, Podname c1, Name c1) \<noteq> (Namespace c2, Podname c2, Name c2)"
  shows "k1 \<noteq> k2 \<and>
         GetTracerData s2 tn = Inr ((bucket_of s tn)(k1 \<mapsto> e1, k2 \<mapsto> e2)) \<and>
         bucket_of s2 tn k1 = Some e1 \<and> bucket_of s2 tn k2 = Some e2"
proof -
  have loaded: "data s1 tn \<noteq> None"
    by (simp add: s1 PublishEvent_data)
  have "info (Some c1) t1 \<noteq> info (Some c2) t2" for t1 t2
    using info_Some_inject [OF ns pod name] differ by blast
  then have neq: "k1 \<noteq> k2"
    by (simp add: k1 k2 event_key_def split: option.splits)
  have b1: "bucket_of s1 tn = (bucket_of s tn)(k1 \<mapsto> e1)"
    by (simp add: s1 k1 PublishEvent_bucket_same)
  have b2: "bucket_of s2 tn = (bucket_of s tn)(k1 \<mapsto> e1, k2 \<mapsto> e2)"
    by (simp add: s2 k2 PublishEvent_bucket_same b1)
  have "GetTracerData s2 tn = Inr ((bucket_of s tn)(k1 \<mapsto> e1, k2 \<mapsto> e2))"
    by (simp add: s2 k2 GetTracerData_published b1)
  with neq b2 show ?thesis by simp
qed

theorem publish_distinct_containers_two_entries_witness:
  "''default /namespaces/web-1/pods/nginx/containers/T '' \<noteq>
     ''default /namespaces/web-2/pods/nginx/containers/T '' \<and>
   GetTracerData
     (PublishEvent (\<lambda>n. ''T'') ''ig-dnstrace''
        (Some \<lparr>Namespace = ''default'', Podname = ''web-2'', Name = ''nginx'',
               Pid = 200, HostNetwork = False\<rparr>) ''second''
        (PublishEvent (\<lambda>n. ''T'') ''ig-dnstrace''
           (Some \<lparr>Namespace = ''default'', Podname = ''web-1'', Name = ''nginx'',
                  Pid = 100, HostNetwork = False\<rparr>) ''first''
           NewIGTraceContainerCollector))
     ''ig-dnstrace''
   = Inr [''default /namespaces/web-1/pods/nginx/containers/T '' \<mapsto> ''first'',
          ''default /namespaces/web-2/pods/nginx/containers/T '' \<mapsto> ''second'']"
  using publish_distinct_containers_two_entries
    [of _ "\<lambda>n. ''T''" "''ig-dnstrace''"
        "\<lparr>Namespace = ''default'', Podname = ''web-1'', Name = ''nginx'',
          Pid = 100, HostNetwork = False\<rparr>"
        "''first''" NewIGTraceContainerCollector _
        "\<lparr>Namespace = ''default'', Podname = ''web-2'', Name = ''nginx'',
          Pid = 200, HostNetwork = False\<rparr>"
        "''second''" _ _, OF refl refl refl refl]
  by (simp add: event_key_def info_def bucket_of_def PublishEvent_data
      NewIGTraceContainerCollector_def)

text \<open>
  C2 as stated fails: two containers that differ in the process id alone, published
  under one timestamp, share the key, and one entry is left.
\<close>

theorem publish_distinct_pid_counterexample:
  "\<lparr>Namespace = ''default'', Podname = ''web-1'', Name = ''nginx'', Pid = 100,
     HostNetwork = False\<rparr>
   \<noteq> \<lparr>Namespace = ''default'', Podname = ''web-1'', Name = ''nginx'', Pid = 200,
        HostNetwork = False\<rparr> \<and>
   GetTracerData
     (PublishEvent (\<lambda>n. ''T'') ''ig-dnstrace''
        (Some \<lparr>Namespace = ''default'', Podname = ''web-1'', Name = ''nginx'',
               Pid = 200, HostNetwork = False\<rparr>) ''second''
        (PublishEvent (\<lambda>n. ''T'') ''ig-dnstrace''
           (Some \<lparr>Namespace = ''default'', Podname = ''web-1'', Name = ''nginx'',
                  Pid = 100, HostNetwork = False\<rparr>) ''first''
           NewIGTraceContainerCollector))
     ''ig-dnstrace''
   = Inr [''default /namespaces/web-1/pods/nginx/containers/T '' \<mapsto> ''second'']"
  by (simp add: GetTracerData_def PublishEvent_def info_def NewIGTraceContainerCollector_def)

lemma publish_all_append:
  "publish_all now (xs @ ys) s = publish_all now ys (publish_all now xs s)"
  by (induction now xs s rule: publish_all.induct) simp_all

lemma publish_all_dom:
  "dom (data (publish_all now evs s)) = dom (data s) \<union> fst ` set evs"
  by (induction now evs s rule: publish_all.induct) (simp_all add: PublishEvent_dom)

lemma PublishEvent_bucket_dom_mono:
  "dom (bucket_of s tn') \<subseteq> dom (bucket_of (PublishEvent now tn c e s) tn')"
  by (cases "tn' = tn") (auto simp: PublishEvent_bucket_same PublishEvent_bucket_other)

lemma publish_all_bucket_dom_mono:
  "dom (bucket_of s tn') \<subseteq> dom (bucket_of (publish_all now evs s) tn')"
proof (induction now evs s rule: publish_all.induct)
  case (1 now s)
  show ?case by simp
next
  case (2 now traceName container eventDetails evs s)
  have "dom (bucket_of s tn')
          \<subseteq> dom (bucket_of (PublishEvent now traceName container eventDetails s) tn')"
    by (rule PublishEvent_bucket_dom_mono)
  with 2 show ?case by auto
qed

text \<open>
  C3. On a collector that has received any run of publications, \<open>GetTracerData\<close> for a
  trace name with no published event panics (it does not return an empty map); for a
  name with a published event it returns the bucket stored for the name, and the key of
  every event published for that name is in it.
\<close>

theorem GetTracerData_panics_iff_unpublished:
  assumes S: "S = publish_all now evs NewIGTraceContainerCollector"
  shows "(tn \<notin> fst ` set evs \<longrightarrow> GetTracerData S tn = Inl NilInterfaceConversion) \<and>
         (tn \<in> fst ` set evs \<longrightarrow>
            (\<exists>b. GetTracerData S tn = Inr b \<and> data S tn = Some b \<and>
                 (\<forall>pre c e post. evs = pre @ (tn, c, e) # post \<longrightarrow>
                    event_key now tn c (publish_all now pre NewIGTraceContainerCollector)
                      \<in> dom b)))"
proof (intro conjI impI)
  have dom: "dom (data S) = fst ` set evs"
    by (simp add: S publish_all_dom NewIGTraceContainerCollector_def)
  {
    assume "tn \<notin> fst ` set evs"
    with dom have "data S tn = None" by blast
    then show "GetTracerData S tn = Inl NilInterfaceConversion"
      by (simp add: GetTracerData_def)
  }
  {
    assume "tn \<in> fst ` set evs"
    with dom obtain b where b: "data S tn = Some b" by blast
    then have get: "GetTracerData S tn = Inr b" and bo: "bucket_of S tn = b"
      by (simp_all add: GetTracerData_def bucket_of_def)
    have "event_key now tn c (publish_all now pre NewIGTraceContainerCollector) \<in> dom b"
      if split: "evs = pre @ (tn, c, e) # post" for pre c e post
    proof -
      let ?P = "publish_all now pre NewIGTraceContainerCollector"
      have "S = publish_all now post (PublishEvent now tn c e ?P)"
        by (simp add: S split publish_all_append)
      moreover have "event_key now tn c ?P \<in> dom (bucket_of (PublishEvent now tn c e ?P) tn)"
        by (simp add: PublishEvent_bucket_same)
      ultimately have "event_key now tn c ?P \<in> dom (bucket_of S tn)"
        using publish_all_bucket_dom_mono by blast
      then show ?thesis by (simp add: bo)
    qed
    with get b
    show "\<exists>b. GetTracerData S tn = Inr b \<and> data S tn = Some b \<and>
            (\<forall>pre c e post. evs = pre @ (tn, c, e) # post \<longrightarrow>
               event_key now tn c (publish_all now pre NewIGTraceContainerCollector) \<in> dom b)"
      by blast
  }
qed

theorem GetTracerData_panics_iff_unpublished_witness:
  "GetTracerData
     (publish_all (\<lambda>n. ''T'') [(''ig-tcptrace'', None, ''connect'')]
        NewIGTraceContainerCollector) ''ig-dnstrace''
     = Inl NilInterfaceConversion \<and>
   GetTracerData
     (publish_all (\<lambda>n. ''T'') [(''ig-tcptrace'', None, ''connect'')]
        NewIGTraceContainerCollector) ''ig-tcptrace''
     = Inr [''T'' \<mapsto> ''connect'']"
proof -
  let ?S = "publish_all (\<lambda>n. ''T'') [(''ig-tcptrace'', None, ''connect'')]
              NewIGTraceContainerCollector"
  have a: "GetTracerData ?S ''ig-dnstrace'' = Inl NilInterfaceConversion"
    using GetTracerData_panics_iff_unpublished
      [of ?S "\<lambda>n. ''T''" "[(''ig-tcptrace'', None, ''connect'')]" "''ig-dnstrace''"]
    by simp
  have mem: "''ig-tcptrace'' \<in> fst ` set [(''ig-tcptrace'', None :: Container option, ''connect'')]"
    by simp
  have "\<exists>b. GetTracerData ?S ''ig-tcptrace'' = Inr b \<and> data ?S ''ig-tcptrace'' = Some b"
    using GetTracerData_panics_iff_unpublished [OF refl, THEN conjunct2, THEN mp, OF mem]
    by blast
  then have "GetTracerData ?S ''ig-tcptrace'' = Inr [''T'' \<mapsto> ''connect'']"
    by (simp add: PublishEvent_def info_def NewIGTraceContainerCollector_def)
  with a show ?thesis by simp
qed

section \<open>Claims about the trace collectors\<close>

lemma dnsEventCallback_Some:
  "dnsEventCallback now EventString rt (Some c) event s =
     Inr (PublishEvent now InspektorGadgetDNSTraceCollector_GetName (Some c)
            (EventString (spec_enriched rt (Some c) event)) s)"
  by (simp add: dnsEventCallback_def spec_enriched_def Let_def)

text \<open>
  C4, amended. The DNS callback enriches the event as the specification says (node
  identity; namespace, pod and container names unless the container is host-network)
  and publishes the stringified enriched event under \<open>ig-dnstrace\<close> with the
  container in the key. The TCP callback is handed no container: it publishes the
  stringified event as the tracer delivered it, under \<open>ig-tcptrace\<close>, and the key
  is a bare reading of the clock.
\<close>

theorem callbacks_forward_events:
  "(\<exists>s'. dnsEventCallback now EventString rt (Some c) event s = Inr s' \<and>
         bucket_of s' ''ig-dnstrace'' =
           (bucket_of s ''ig-dnstrace'')
             (event_key now ''ig-dnstrace'' (Some c) s \<mapsto>
                EventString (spec_enriched rt (Some c) event))) \<and>
   bucket_of (tcpEventCallback now EventString event s) ''ig-tcptrace'' =
     (bucket_of s ''ig-tcptrace'')(event_key now ''ig-tcptrace'' None s \<mapsto> EventString event) \<and>
   event_key now ''ig-tcptrace'' None s =
     (case data s ''ig-tcptrace'' of None \<Rightarrow> now (readings s) | Some b \<Rightarrow> now (Suc (readings s)))"
proof (intro conjI)
  show "\<exists>s'. dnsEventCallback now EventString rt (Some c) event s = Inr s' \<and>
         bucket_of s' ''ig-dnstrace'' =
           (bucket_of s ''ig-dnstrace'')
             (event_key now ''ig-dnstrace'' (Some c) s \<mapsto>
                EventString (spec_enriched rt (Some c) event))"
    by (simp add: dnsEventCallback_Some InspektorGadgetDNSTraceCollector_GetName_def
        PublishEvent_bucket_same)
  show "bucket_of (tcpEventCallback now EventString event s) ''ig-tcptrace'' =
     (bucket_of s ''ig-tcptrace'')(event_key now ''ig-tcptrace'' None s \<mapsto> EventString event)"
    by (simp add: tcpEventCallback_def InspektorGadgetTCPTraceCollector_GetName_def
        PublishEvent_bucket_same)
  show "event_key now ''ig-tcptrace'' None s =
     (case data s ''ig-tcptrace'' of None \<Rightarrow> now (readings s) | Some b \<Rightarrow> now (Suc (readings s)))"
    by (simp add: event_key_def info_def split: option.splits)
qed

theorem callbacks_forward_events_witness:
  "(\<exists>s'. dnsEventCallback (\<lambda>n. ''T'')
            (\<lambda>e. event_Node e @ ''|'' @ event_Namespace e @ ''|'' @ event_Pod e @ ''|''
                   @ event_Container e)
            \<lparr>OSIdentifier = ''linux'', HostNodeName = ''aks-node-1'', CollectorList = [],
              KubernetesObjects = [], NodeLogs = [], ContainerLogsNamespaces = [],
              StorageAccountName = '''', StorageSasKey = '''', StorageContainerName = '''',
              StorageSasKeyType = ''''\<rparr>
            (Some \<lparr>Namespace = ''default'', Podname = ''web-1'', Name = ''nginx'',
                   Pid = 100, HostNetwork = False\<rparr>)
            \<lparr>event_Node = '''', event_Namespace = '''', event_Pod = '''',
              event_Container = '''', event_rest = ()\<rparr>
            NewIGTraceContainerCollector = Inr s' \<and>
         bucket_of s' ''ig-dnstrace'' =
           [''default /namespaces/web-1/pods/nginx/containers/T '' \<mapsto>
              ''aks-node-1|default|web-1|nginx'']) \<and>
   bucket_of
     (tcpEventCallback (\<lambda>n. ''T'')
        (\<lambda>e. event_Node e @ ''|'' @ event_Namespace e @ ''|'' @ event_Pod e @ ''|''
               @ event_Container e)
        \<lparr>event_Node = '''', event_Namespace = '''', event_Pod = '''', event_Container = '''',
          event_rest = ()\<rparr>
        NewIGTraceContainerCollector) ''ig-tcptrace''
   = [''T'' \<mapsto> ''|||'']"
  using callbacks_forward_events
    [of "\<lambda>n. ''T''"
        "\<lambda>e. event_Node e @ ''|'' @ event_Namespace e @ ''|'' @ event_Pod e @ ''|''
               @ event_Container e"
        "\<lparr>OSIdentifier = ''linux'', HostNodeName = ''aks-node-1'', CollectorList = [],
          KubernetesObjects = [], NodeLogs = [], ContainerLogsNamespaces = [],
          StorageAccountName = '''', StorageSasKey = '''', StorageContainerName = '''',
          StorageSasKeyType = ''''\<rparr>"
        "\<lparr>Namespace = ''default'', Podname = ''web-1'', Name = ''nginx'',
          Pid = 100, HostNetwork = False\<rparr>"
        "\<lparr>event_Node = '''', event_Namespace = '''', event_Pod = '''', event_Container = '''',
          event_rest = ()\<rparr>"
        NewIGTraceContainerCollector]
  by (simp add: bucket_of_def event_key_def info_def spec_enriched_def
      NewIGTraceContainerCollector_def)

text \<open>
  C4 as stated fails for the TCP collector: with a rendering that shows the node field,
  an event delivered with an empty node is published with the empty node, where the
  enriched event would carry the host node name.
\<close>

theorem tcp_callback_enrichment_counterexample:
  "GetTracerData
     (tcpEventCallback (\<lambda>n. ''T'') event_Node
        \<lparr>event_Node = '''', event_Namespace = '''', event_Pod = '''', event_Container = '''',
          event_rest = ()\<rparr>
        NewIGTraceContainerCollector) ''ig-tcptrace''
   = Inr [''T'' \<mapsto> ''''] \<and>
   event_Node
     (spec_enriched
        \<lparr>OSIdentifier = ''linux'', HostNodeName = ''aks-node-1'', CollectorList = [],
          KubernetesObjects = [], NodeLogs = [], ContainerLogsNamespaces = [],
          StorageAccountName = '''', StorageSasKey = '''', StorageContainerName = '''',
          StorageSasKeyType = ''''\<rparr>
        None
        \<lparr>event_Node = '''', event_Namespace = '''', event_Pod = '''', event_Container = '''',
          event_rest = ()\<rparr>)
   = ''aks-node-1''"
  by (simp add: GetTracerData_def tcpEventCallback_def PublishEvent_def info_def
      NewIGTraceContainerCollector_def InspektorGadgetTCPTraceCollector_GetName_def
      spec_enriched_def)

subsection \<open>The paths through the two Collect functions\<close>

text \<open>
  Each path through \<open>Collect\<close>, with its result, the collector it leaves and its
  effects in full. A nil container handed to the DNS callback makes it panic, and the
  process dies without running a deferred call; the DNS collector's \<open>Collect\<close> returns
  whenever the probe hands its callback a container with every event, and the TCP
  collector's always.
\<close>

lemma InitContainerCollection_Inr:
  "InitContainerCollection env = Inr cc \<Longrightarrow> cc = ContainerCollection"
  by (simp add: InitContainerCollection_def split: option.splits)

lemma deliver_dns_no_nil:
  "\<forall>(container, event) \<in> set evs. container \<noteq> None \<Longrightarrow>
   fst (deliver_dns now EventString rt evs s) = None"
proof (induction evs arbitrary: s)
  case Nil
  then show ?case by simp
next
  case (Cons a evs)
  obtain container event where a: "a = (container, event)" by (cases a)
  from Cons.prems a obtain c where c: "container = Some c" by auto
  from Cons show ?case
    by (simp add: a c dnsEventCallback_Some)
qed

lemma DNS_Collect_init_error:
  "InitContainerCollection env = Inl e \<Longrightarrow>
   InspektorGadgetDNSTraceCollector_Collect now EventString rt env s =
     (Returned (Some (Wrap ''failed to initialize container collection'' e)), s, [])"
  by (simp add: InspektorGadgetDNSTraceCollector_Collect_def)

lemma DNS_Collect_tracer_error:
  "InitContainerCollection env = Inr cc \<Longrightarrow> NewTracer env = Some e \<Longrightarrow>
   InspektorGadgetDNSTraceCollector_Collect now EventString rt env s =
     (Returned (Some (Wrap ''failed to start dns tracer'' e)), s,
      [Acquired ContainerCollection, Closed ContainerCollection])"
  by (frule InitContainerCollection_Inr)
     (simp add: InspektorGadgetDNSTraceCollector_Collect_def acquire_defer_def run_deferred_def)

lemma DNS_Collect_connect_error:
  "InitContainerCollection env = Inr cc \<Longrightarrow> NewTracer env = None \<Longrightarrow>
   ConnectToContainerCollection env = Some e \<Longrightarrow>
   InspektorGadgetDNSTraceCollector_Collect now EventString rt env s =
     (Returned (Some (Wrap ''failed to connect network tracer - dns tracer'' e)), s,
      [Acquired ContainerCollection, Acquired DNSTracer,
       Closed DNSTracer, Closed ContainerCollection])"
  by (frule InitContainerCollection_Inr)
     (simp add: InspektorGadgetDNSTraceCollector_Collect_def acquire_defer_def run_deferred_def)

lemma DNS_Collect_normal:
  assumes init: "InitContainerCollection env = Inr cc"
      and tracer: "NewTracer env = None"
      and conn: "ConnectToContainerCollection env = None"
      and no_nil: "\<forall>(container, event) \<in> set (delivered env). container \<noteq> None"
  shows "InspektorGadgetDNSTraceCollector_Collect now EventString rt env s =
     (Returned None, snd (deliver_dns now EventString rt (delivered env) s),
      [Acquired ContainerCollection, Acquired DNSTracer, Acquired Connection,
       WaiterReturned,
       Closed Connection, Closed DNSTracer, Closed ContainerCollection])"
proof -
  obtain p s' where d: "deliver_dns now EventString rt (delivered env) s = (p, s')"
    by (cases "deliver_dns now EventString rt (delivered env) s")
  with deliver_dns_no_nil [OF no_nil, of now EventString rt s] have p: "p = None" by simp
  from InitContainerCollection_Inr [OF init] have cc: "cc = ContainerCollection" .
  show ?thesis
    using init tracer conn d p
    by (simp add: InspektorGadgetDNSTraceCollector_Collect_def cc acquire_defer_def
        run_deferred_def)
qed

lemma DNS_Collect_crash:
  assumes init: "InitContainerCollection env = Inr cc"
      and tracer: "NewTracer env = None"
      and conn: "ConnectToContainerCollection env = None"
      and crash: "fst (deliver_dns now EventString rt (delivered env) s) = Some p"
  shows "InspektorGadgetDNSTraceCollector_Collect now EventString rt env s =
     (Crashed p, snd (deliver_dns now EventString rt (delivered env) s),
      [Acquired ContainerCollection, Acquired DNSTracer, Acquired Connection])"
proof -
  obtain q s' where d: "deliver_dns now EventString rt (delivered env) s = (q, s')"
    by (cases "deliver_dns now EventString rt (delivered env) s")
  from InitContainerCollection_Inr [OF init] have cc: "cc = ContainerCollection" .
  show ?thesis
    using init tracer conn d crash
    by (simp add: InspektorGadgetDNSTraceCollector_Collect_def cc acquire_defer_def)
qed


lemma TCP_Collect_core:
  "InitContainerCollection env = Inr cc \<Longrightarrow> tcptracer_NewTracer env = None \<Longrightarrow>
   InspektorGadgetTCPTraceCollector_Collect now EventString env s =
     (Returned None, fold (tcpEventCallback now EventString) (tcp_delivered env) s,
      [Acquired ContainerCollection, Acquired CoreTracer, WaiterReturned,
       Closed CoreTracer, Closed ContainerCollection])"
  by (frule InitContainerCollection_Inr)
     (simp add: InspektorGadgetTCPTraceCollector_Collect_def acquire_defer_def run_deferred_def)

lemma TCP_Collect_fallback:
  "InitContainerCollection env = Inr cc \<Longrightarrow> tcptracer_NewTracer env = Some e1 \<Longrightarrow>
   standardtracer_NewTracer env = None \<Longrightarrow>
   InspektorGadgetTCPTraceCollector_Collect now EventString env s =
     (Returned None, fold (tcpEventCallback now EventString) (tcp_delivered env) s,
      [Acquired ContainerCollection, Acquired StandardTracer, WaiterReturned,
       Closed StandardTracer, Closed ContainerCollection])"
  by (frule InitContainerCollection_Inr)
     (simp add: InspektorGadgetTCPTraceCollector_Collect_def acquire_defer_def run_deferred_def)

lemma TCP_Collect_both_fail:
  "InitContainerCollection env = Inr cc \<Longrightarrow> tcptracer_NewTracer env = Some e1 \<Longrightarrow>
   standardtracer_NewTracer env = Some e2 \<Longrightarrow>
   InspektorGadgetTCPTraceCollector_Collect now EventString env s =
     (Returned (Some (Wrap ''failed to create a tracer'' e2)), s,
      [Acquired ContainerCollection, Closed ContainerCollection])"
  by (frule InitContainerCollection_Inr)
     (simp add: InspektorGadgetTCPTraceCollector_Collect_def acquire_defer_def run_deferred_def)




text \<open>
  C6. Every path on which \<open>Collect\<close> of the DNS or of the TCP collector returns is
  listed with its effects in full: the acquisitions in the order container collection,
  tracer, connection (the TCP collector has no connection of its own), as far as they
  got; the waiter on the normal return; then the closes of exactly what was acquired,
  in the reverse order: connection, tracer, container collection. The TCP collector's
  \<open>Collect\<close> always returns, and the DNS collector's returns whenever the probe hands
  its callback a container with every event; whenever either returns, what it closed is
  the reverse of what it acquired.
\<close>

theorem Collect_releases_in_reverse_order:
  "((\<forall>cc. InitContainerCollection env = Inr cc \<and> NewTracer env = None \<and>
          ConnectToContainerCollection env = None \<and>
          (\<forall>(container, event) \<in> set (delivered env). container \<noteq> None) \<longrightarrow>
       InspektorGadgetDNSTraceCollector_Collect now EventString rt env s =
         (Returned None, snd (deliver_dns now EventString rt (delivered env) s),
          [Acquired ContainerCollection, Acquired DNSTracer, Acquired Connection,
           WaiterReturned,
           Closed Connection, Closed DNSTracer, Closed ContainerCollection])) \<and>
    (\<forall>cc e. InitContainerCollection env = Inr cc \<and> NewTracer env = None \<and>
            ConnectToContainerCollection env = Some e \<longrightarrow>
       InspektorGadgetDNSTraceCollector_Collect now EventString rt env s =
         (Returned (Some (Wrap ''failed to connect network tracer - dns tracer'' e)), s,
          [Acquired ContainerCollection, Acquired DNSTracer,
           Closed DNSTracer, Closed ContainerCollection])) \<and>
    (\<forall>cc e. InitContainerCollection env = Inr cc \<and> NewTracer env = Some e \<longrightarrow>
       InspektorGadgetDNSTraceCollector_Collect now EventString rt env s =
         (Returned (Some (Wrap ''failed to start dns tracer'' e)), s,
          [Acquired ContainerCollection, Closed ContainerCollection])) \<and>
    ((\<forall>(container, event) \<in> set (delivered env). container \<noteq> None) \<longrightarrow>
       (\<exists>r s' effs. InspektorGadgetDNSTraceCollector_Collect now EventString rt env s
                       = (Returned r, s', effs))) \<and>
    (\<forall>r s' effs.
       InspektorGadgetDNSTraceCollector_Collect now EventString rt env s = (Returned r, s', effs) \<longrightarrow>
         prefix (acquired effs) [ContainerCollection, DNSTracer, Connection] \<and>
         (r = None \<longrightarrow> acquired effs = [ContainerCollection, DNSTracer, Connection]) \<and>
         closed effs = rev (acquired effs) \<and>
         effs = map Acquired (acquired effs) @ (if r = None then [WaiterReturned] else [])
                  @ map Closed (closed effs))) \<and>
   ((\<forall>cc. InitContainerCollection env2 = Inr cc \<and> tcptracer_NewTracer env2 = None \<longrightarrow>
       InspektorGadgetTCPTraceCollector_Collect now EventString2 env2 s =
         (Returned None, fold (tcpEventCallback now EventString2) (tcp_delivered env2) s,
          [Acquired ContainerCollection, Acquired CoreTracer, WaiterReturned,
           Closed CoreTracer, Closed ContainerCollection])) \<and>
    (\<forall>cc e1. InitContainerCollection env2 = Inr cc \<and> tcptracer_NewTracer env2 = Some e1 \<and>
             standardtracer_NewTracer env2 = None \<longrightarrow>
       InspektorGadgetTCPTraceCollector_Collect now EventString2 env2 s =
         (Returned None, fold (tcpEventCallback now EventString2) (tcp_delivered env2) s,
          [Acquired ContainerCollection, Acquired StandardTracer, WaiterReturned,
           Closed StandardTracer, Closed ContainerCollection])) \<and>
    (\<forall>cc e1 e2. InitContainerCollection env2 = Inr cc \<and> tcptracer_NewTracer env2 = Some e1 \<and>
                standardtracer_NewTracer env2 = Some e2 \<longrightarrow>
       InspektorGadgetTCPTraceCollector_Collect now EventString2 env2 s =
         (Returned (Some (Wrap ''failed to create a tracer'' e2)), s,
          [Acquired ContainerCollection, Closed ContainerCollection])) \<and>
    (\<exists>r s' effs. InspektorGadgetTCPTraceCollector_Collect now EventString2 env2 s
                    = (Returned r, s', effs)) \<and>
    (\<forall>r s' effs.
       InspektorGadgetTCPTraceCollector_Collect now EventString2 env2 s = (Returned r, s', effs) \<longrightarrow>
         (prefix (acquired effs) [ContainerCollection, CoreTracer] \<or>
          prefix (acquired effs) [ContainerCollection, StandardTracer]) \<and>
         (r = None \<longrightarrow> length (acquired effs) = 2) \<and>
         closed effs = rev (acquired effs) \<and>
         effs = map Acquired (acquired effs) @ (if r = None then [WaiterReturned] else [])
                  @ map Closed (closed effs)))"
proof -
  have dns_returns:
    "\<exists>r s' effs. InspektorGadgetDNSTraceCollector_Collect now EventString rt env s
                    = (Returned r, s', effs)"
    if no_nil: "\<forall>(container, event) \<in> set (delivered env). container \<noteq> None"
  proof (cases "InitContainerCollection env")
    case (Inl e)
    then show ?thesis by (simp add: DNS_Collect_init_error)
  next
    case (Inr cc)
    show ?thesis
    proof (cases "NewTracer env")
      case (Some e)
      with Inr show ?thesis by (simp add: DNS_Collect_tracer_error)
    next
      case None
      show ?thesis
      proof (cases "ConnectToContainerCollection env")
        case (Some e)
        with Inr \<open>NewTracer env = None\<close> show ?thesis
          by (simp add: DNS_Collect_connect_error)
      next
        case c: None
        from DNS_Collect_normal [OF Inr None c no_nil] show ?thesis by simp
      qed
    qed
  qed
  have dns_summary:
    "prefix (acquired effs) [ContainerCollection, DNSTracer, Connection] \<and>
     (r = None \<longrightarrow> acquired effs = [ContainerCollection, DNSTracer, Connection]) \<and>
     closed effs = rev (acquired effs) \<and>
     effs = map Acquired (acquired effs) @ (if r = None then [WaiterReturned] else [])
              @ map Closed (closed effs)"
    if "InspektorGadgetDNSTraceCollector_Collect now EventString rt env s = (Returned r, s', effs)"
    for r s' effs
  proof -
    from that have
      "(effs = [] \<and> r \<noteq> None) \<or>
       (effs = [Acquired ContainerCollection, Closed ContainerCollection] \<and> r \<noteq> None) \<or>
       (effs = [Acquired ContainerCollection, Acquired DNSTracer,
                Closed DNSTracer, Closed ContainerCollection] \<and> r \<noteq> None) \<or>
       (effs = [Acquired ContainerCollection, Acquired DNSTracer, Acquired Connection,
                WaiterReturned,
                Closed Connection, Closed DNSTracer, Closed ContainerCollection] \<and> r = None)"
      by (auto simp: InspektorGadgetDNSTraceCollector_Collect_def InitContainerCollection_def
          acquire_defer_def run_deferred_def Let_def split: option.splits sum.splits prod.splits)
    then show ?thesis by auto
  qed
  have tcp_returns:
    "\<exists>r s' effs. InspektorGadgetTCPTraceCollector_Collect now EventString2 env2 s
                    = (Returned r, s', effs)"
    by (simp add: InspektorGadgetTCPTraceCollector_Collect_def Let_def
        split: option.splits sum.splits)
  have tcp_summary:
    "(prefix (acquired effs) [ContainerCollection, CoreTracer] \<or>
      prefix (acquired effs) [ContainerCollection, StandardTracer]) \<and>
     (r = None \<longrightarrow> length (acquired effs) = 2) \<and>
     closed effs = rev (acquired effs) \<and>
     effs = map Acquired (acquired effs) @ (if r = None then [WaiterReturned] else [])
              @ map Closed (closed effs)"
    if "InspektorGadgetTCPTraceCollector_Collect now EventString2 env2 s = (Returned r, s', effs)"
    for r s' effs
  proof -
    from that have
      "(effs = [] \<and> r \<noteq> None) \<or>
       (effs = [Acquired ContainerCollection, Closed ContainerCollection] \<and> r \<noteq> None) \<or>
       (effs = [Acquired ContainerCollection, Acquired CoreTracer, WaiterReturned,
                Closed CoreTracer, Closed ContainerCollection] \<and> r = None) \<or>
       (effs = [Acquired ContainerCollection, Acquired StandardTracer, WaiterReturned,
                Closed StandardTracer, Closed ContainerCollection] \<and> r = None)"
      by (auto simp: InspektorGadgetTCPTraceCollector_Collect_def InitContainerCollection_def
          acquire_defer_def run_deferred_def Let_def split: option.splits sum.splits prod.splits)
    then show ?thesis by auto
  qed
  have dns_half:
    "(\<forall>cc. InitContainerCollection env = Inr cc \<and> NewTracer env = None \<and>
          ConnectToContainerCollection env = None \<and>
          (\<forall>(container, event) \<in> set (delivered env). container \<noteq> None) \<longrightarrow>
       InspektorGadgetDNSTraceCollector_Collect now EventString rt env s =
         (Returned None, snd (deliver_dns now EventString rt (delivered env) s),
          [Acquired ContainerCollection, Acquired DNSTracer, Acquired Connection,
           WaiterReturned,
           Closed Connection, Closed DNSTracer, Closed ContainerCollection])) \<and>
    (\<forall>cc e. InitContainerCollection env = Inr cc \<and> NewTracer env = None \<and>
            ConnectToContainerCollection env = Some e \<longrightarrow>
       InspektorGadgetDNSTraceCollector_Collect now EventString rt env s =
         (Returned (Some (Wrap ''failed to connect network tracer - dns tracer'' e)), s,
          [Acquired ContainerCollection, Acquired DNSTracer,
           Closed DNSTracer, Closed ContainerCollection])) \<and>
    (\<forall>cc e. InitContainerCollection env = Inr cc \<and> NewTracer env = Some e \<longrightarrow>
       InspektorGadgetDNSTraceCollector_Collect now EventString rt env s =
         (Returned (Some (Wrap ''failed to start dns tracer'' e)), s,
          [Acquired ContainerCollection, Closed ContainerCollection]))"
    by (intro conjI allI impI)
       (simp_all add: DNS_Collect_normal DNS_Collect_connect_error DNS_Collect_tracer_error)
  have tcp_half:
    "(\<forall>cc. InitContainerCollection env2 = Inr cc \<and> tcptracer_NewTracer env2 = None \<longrightarrow>
       InspektorGadgetTCPTraceCollector_Collect now EventString2 env2 s =
         (Returned None, fold (tcpEventCallback now EventString2) (tcp_delivered env2) s,
          [Acquired ContainerCollection, Acquired CoreTracer, WaiterReturned,
           Closed CoreTracer, Closed ContainerCollection])) \<and>
    (\<forall>cc e1. InitContainerCollection env2 = Inr cc \<and> tcptracer_NewTracer env2 = Some e1 \<and>
             standardtracer_NewTracer env2 = None \<longrightarrow>
       InspektorGadgetTCPTraceCollector_Collect now EventString2 env2 s =
         (Returned None, fold (tcpEventCallback now EventString2) (tcp_delivered env2) s,
          [Acquired ContainerCollection, Acquired StandardTracer, WaiterReturned,
           Closed StandardTracer, Closed ContainerCollection])) \<and>
    (\<forall>cc e1 e2. InitContainerCollection env2 = Inr cc \<and> tcptracer_NewTracer env2 = Some e1 \<and>
                standardtracer_NewTracer env2 = Some e2 \<longrightarrow>
       InspektorGadgetTCPTraceCollector_Collect now EventString2 env2 s =
         (Returned (Some (Wrap ''failed to create a tracer'' e2)), s,
          [Acquired ContainerCollection, Closed ContainerCollection]))"
    by (intro conjI allI impI)
       (simp_all add: TCP_Collect_core TCP_Collect_fallback TCP_Collect_both_fail)
  from dns_half dns_returns dns_summary tcp_half tcp_returns tcp_summary
  show ?thesis by blast
qed

theorem Collect_releases_in_reverse_order_witness:
  "InspektorGadgetDNSTraceCollector_Collect (\<lambda>n. ''T'') event_Node
     \<lparr>OSIdentifier = ''linux'', HostNodeName = ''aks-node-1'', CollectorList = [],
       KubernetesObjects = [], NodeLogs = [], ContainerLogsNamespaces = [],
       StorageAccountName = '''', StorageSasKey = '''', StorageContainerName = '''',
       StorageSasKeyType = ''''\<rparr>
     \<lparr>RemoveMemlock = None, Initialize = None, NewTracer = None,
       ConnectToContainerCollection = None,
       delivered =
         [(Some \<lparr>Namespace = ''default'', Podname = ''web-1'', Name = ''nginx'',
                  Pid = 100, HostNetwork = False\<rparr>,
           \<lparr>event_Node = '''', event_Namespace = '''', event_Pod = '''',
             event_Container = '''', event_rest = ()\<rparr>)]\<rparr>
     NewIGTraceContainerCollector
     = (Returned None,
        \<lparr>data = [''ig-dnstrace'' \<mapsto>
                   [''default /namespaces/web-1/pods/nginx/containers/T '' \<mapsto> ''aks-node-1'']],
          readings = 1\<rparr>,
        [Acquired ContainerCollection, Acquired DNSTracer, Acquired Connection,
         WaiterReturned,
         Closed Connection, Closed DNSTracer, Closed ContainerCollection]) \<and>
   closed [Acquired ContainerCollection, Acquired DNSTracer, Acquired Connection,
           WaiterReturned,
           Closed Connection, Closed DNSTracer, Closed ContainerCollection]
     = rev (acquired [Acquired ContainerCollection, Acquired DNSTracer, Acquired Connection,
                      WaiterReturned,
                      Closed Connection, Closed DNSTracer, Closed ContainerCollection]) \<and>
   InspektorGadgetTCPTraceCollector_Collect (\<lambda>n. ''T'') event_Node
     \<lparr>RemoveMemlock = None, Initialize = None, tcptracer_NewTracer = None,
       standardtracer_NewTracer = None, tcp_delivered = ([] :: unit Event list)\<rparr>
     NewIGTraceContainerCollector
     = (Returned None, NewIGTraceContainerCollector,
        [Acquired ContainerCollection, Acquired CoreTracer, WaiterReturned,
         Closed CoreTracer, Closed ContainerCollection]) \<and>
   closed [Acquired ContainerCollection, Acquired CoreTracer, WaiterReturned,
           Closed CoreTracer, Closed ContainerCollection]
     = rev (acquired [Acquired ContainerCollection, Acquired CoreTracer, WaiterReturned,
                      Closed CoreTracer, Closed ContainerCollection])"
proof -
  let ?rt = "\<lparr>OSIdentifier = ''linux'', HostNodeName = ''aks-node-1'', CollectorList = [],
       KubernetesObjects = [], NodeLogs = [], ContainerLogsNamespaces = [],
       StorageAccountName = '''', StorageSasKey = '''', StorageContainerName = '''',
       StorageSasKeyType = ''''\<rparr>"
  let ?denv = "\<lparr>RemoveMemlock = None, Initialize = None, NewTracer = None,
       ConnectToContainerCollection = None,
       delivered =
         [(Some \<lparr>Namespace = ''default'', Podname = ''web-1'', Name = ''nginx'',
                  Pid = 100, HostNetwork = False\<rparr>,
           \<lparr>event_Node = '''', event_Namespace = '''', event_Pod = '''',
             event_Container = '''', event_rest = ()\<rparr>)]\<rparr>"
  let ?tenv = "\<lparr>RemoveMemlock = None, Initialize = None, tcptracer_NewTracer = None,
       standardtracer_NewTracer = None, tcp_delivered = ([] :: unit Event list)\<rparr>"
  let ?S = "\<lparr>data = [''ig-dnstrace'' \<mapsto>
                   [''default /namespaces/web-1/pods/nginx/containers/T '' \<mapsto> ''aks-node-1'']],
          readings = 1\<rparr>"
  let ?deffs = "[Acquired ContainerCollection, Acquired DNSTracer, Acquired Connection,
         WaiterReturned,
         Closed Connection, Closed DNSTracer, Closed ContainerCollection]"
  let ?teffs = "[Acquired ContainerCollection, Acquired CoreTracer, WaiterReturned,
         Closed CoreTracer, Closed ContainerCollection]"
  note inst = Collect_releases_in_reverse_order
    [of ?denv "\<lambda>n. ''T''" event_Node ?rt NewIGTraceContainerCollector ?tenv event_Node]
  have di: "InitContainerCollection ?denv = Inr ContainerCollection"
    by (simp add: InitContainerCollection_def)
  have ti: "InitContainerCollection ?tenv = Inr ContainerCollection"
    by (simp add: InitContainerCollection_def)
  have dd: "snd (deliver_dns (\<lambda>n. ''T'') event_Node ?rt (delivered ?denv)
                   NewIGTraceContainerCollector) = ?S"
    by (simp add: dnsEventCallback_def PublishEvent_def info_def
        InspektorGadgetDNSTraceCollector_GetName_def NewIGTraceContainerCollector_def)
  have d: "InspektorGadgetDNSTraceCollector_Collect (\<lambda>n. ''T'') event_Node ?rt ?denv
             NewIGTraceContainerCollector = (Returned None, ?S, ?deffs)"
    using inst di dd by simp
  have t: "InspektorGadgetTCPTraceCollector_Collect (\<lambda>n. ''T'') event_Node ?tenv
             NewIGTraceContainerCollector
             = (Returned None, NewIGTraceContainerCollector, ?teffs)"
    using inst ti by simp
  have "closed ?deffs = rev (acquired ?deffs)"
    using inst d by blast
  moreover have "closed ?teffs = rev (acquired ?teffs)"
    using inst t by blast
  ultimately show ?thesis using d t by blast
qed

section \<open>Claims about the exporter\<close>

lemma Export_loop_all_ok:
  "\<forall>(k, c) \<in> set items. UploadStreamToBlockBlob env (blob_name exporter k) c = None \<Longrightarrow>
   Export_loop env exporter items =
     (None, map (\<lambda>(k, c). UploadBlob (blob_name exporter k) c) items)"
  by (induction env exporter items rule: Export_loop.induct) (simp_all add: Let_def)

lemma Export_loop_first_failure:
  "\<forall>(k, c) \<in> set pre. UploadStreamToBlockBlob env (blob_name exporter k) c = None \<Longrightarrow>
   UploadStreamToBlockBlob env (blob_name exporter key) content = Some e \<Longrightarrow>
   Export_loop env exporter (pre @ (key, content) # post) =
     (Some (Wrap (''append file '' @ key @ '' to blob'') e),
      map (\<lambda>(k, c). UploadBlob (blob_name exporter k) c) pre
        @ [UploadBlob (blob_name exporter key) content])"
proof (induction pre)
  case Nil
  then show ?case by (simp add: Let_def)
next
  case (Cons a pre)
  obtain k c where a: "a = (k, c)" by (cases a)
  from Cons show ?case by (simp add: a Let_def)
qed

text \<open>
  C7. With the container URL made, \<open>Export\<close> uploads the items in the order of the
  iteration; at the first item whose upload fails it returns that error wrapped with
  the item's name, and the uploads attempted are those of the items before it and its
  own, none of the items after it. When no upload fails, every item is uploaded once
  and \<open>Export\<close> returns nil.
\<close>

theorem Export_fail_fast:
  assumes url: "createContainerURL env (runtimeInfo exporter) = (Inr containerURL, calls)"
  shows "(\<forall>pre key content post e.
            items = pre @ (key, content) # post \<and>
            (\<forall>(k, c) \<in> set pre. UploadStreamToBlockBlob env (blob_name exporter k) c = None) \<and>
            UploadStreamToBlockBlob env (blob_name exporter key) content = Some e \<longrightarrow>
            Export env exporter items =
              (Some (Wrap (''append file '' @ key @ '' to blob'') e),
               calls @ map (\<lambda>(k, c). UploadBlob (blob_name exporter k) c) pre
                 @ [UploadBlob (blob_name exporter key) content])) \<and>
         ((\<forall>(k, c) \<in> set items. UploadStreamToBlockBlob env (blob_name exporter k) c = None) \<longrightarrow>
            Export env exporter items =
              (None, calls @ map (\<lambda>(k, c). UploadBlob (blob_name exporter k) c) items))"
proof (intro conjI allI impI)
  fix pre key content post e
  assume "items = pre @ (key, content) # post \<and>
          (\<forall>(k, c) \<in> set pre. UploadStreamToBlockBlob env (blob_name exporter k) c = None) \<and>
          UploadStreamToBlockBlob env (blob_name exporter key) content = Some e"
  then show "Export env exporter items =
              (Some (Wrap (''append file '' @ key @ '' to blob'') e),
               calls @ map (\<lambda>(k, c). UploadBlob (blob_name exporter k) c) pre
                 @ [UploadBlob (blob_name exporter key) content])"
    by (simp add: Export_def url Export_loop_first_failure)
next
  assume "\<forall>(k, c) \<in> set items. UploadStreamToBlockBlob env (blob_name exporter k) c = None"
  then show "Export env exporter items =
              (None, calls @ map (\<lambda>(k, c). UploadBlob (blob_name exporter k) c) items)"
    by (simp add: Export_def url Export_loop_all_ok)
qed

theorem Export_fail_fast_witness:
  "Export
     \<lparr>GetStorageEndpointSuffix = ''core.windows.net'', url_Parse = (\<lambda>u. None),
       ContainerURL_Create = None,
       UploadStreamToBlockBlob =
         (\<lambda>blob content. if blob = ''10-00/aks-node-1/b'' then Some (Cause ''timeout'') else None)\<rparr>
     \<lparr>runtimeInfo =
        \<lparr>OSIdentifier = ''linux'', HostNodeName = ''aks-node-1'', CollectorList = [],
          KubernetesObjects = [], NodeLogs = [], ContainerLogsNamespaces = [],
          StorageAccountName = ''acct'', StorageSasKey = ''?sig=1'',
          StorageContainerName = ''logs'', StorageSasKeyType = ''Container''\<rparr>,
       creationTime = ''10:00''\<rparr>
     [(''a'', ''A''), (''b'', ''B''), (''c'', ''C'')]
   = (Some (Wrap ''append file b to blob'' (Cause ''timeout'')),
      [UploadBlob ''10-00/aks-node-1/a'' ''A'', UploadBlob ''10-00/aks-node-1/b'' ''B''])"
proof -
  let ?env = "\<lparr>GetStorageEndpointSuffix = ''core.windows.net'', url_Parse = (\<lambda>u. None),
       ContainerURL_Create = None,
       UploadStreamToBlockBlob =
         (\<lambda>blob content. if blob = ''10-00/aks-node-1/b'' then Some (Cause ''timeout'') else None)\<rparr>"
  let ?exporter = "\<lparr>runtimeInfo =
        \<lparr>OSIdentifier = ''linux'', HostNodeName = ''aks-node-1'', CollectorList = [],
          KubernetesObjects = [], NodeLogs = [], ContainerLogsNamespaces = [],
          StorageAccountName = ''acct'', StorageSasKey = ''?sig=1'',
          StorageContainerName = ''logs'', StorageSasKeyType = ''Container''\<rparr>,
       creationTime = ''10:00''\<rparr>"
  have url: "createContainerURL ?env (runtimeInfo ?exporter)
               = (Inr ''https://acct.blob.core.windows.net/logs?sig=1'', [])"
    by (simp add: createContainerURL_def storageKeyTypes_def)
  have split: "[(''a'', ''A''), (''b'', ''B''), (''c'', ''C'')]
                 = [(''a'', ''A'')] @ (''b'', ''B'') # [(''c'', ''C'')]"
    by simp
  have ok: "\<forall>(k, c) \<in> set [(''a'', ''A'')].
              UploadStreamToBlockBlob ?env (blob_name ?exporter k) c = None"
    by (simp add: blob_name_def)
  have fail: "UploadStreamToBlockBlob ?env (blob_name ?exporter ''b'') ''B'' = Some (Cause ''timeout'')"
    by (simp add: blob_name_def)
  from Export_fail_fast [OF url, THEN conjunct1, rule_format, OF conjI [OF split conjI [OF ok fail]]]
  show ?thesis
    by (simp add: blob_name_def)
qed

text \<open>
  C8. When the storage account name, the SAS key or the container name is empty,
  \<open>Export\<close> and \<open>ExportReader\<close> return the error "Storage not configured." and no
  call reaches the storage service: no container is created and nothing is uploaded.
\<close>

theorem Export_unconfigured_no_network:
  assumes "StorageAccountName (runtimeInfo exporter) = [] \<or>
           StorageSasKey (runtimeInfo exporter) = [] \<or>
           StorageContainerName (runtimeInfo exporter) = []"
  shows "Export env exporter items = (Some (Cause ''Storage not configured.''), []) \<and>
         ExportReader env exporter name reader = (Some (Cause ''Storage not configured.''), [])"
proof -
  have "createContainerURL env (runtimeInfo exporter) = (Inl (Cause ''Storage not configured.''), [])"
    using assms by (auto simp: createContainerURL_def)
  then show ?thesis
    by (simp add: Export_def ExportReader_def)
qed

theorem Export_unconfigured_no_network_witness:
  "Export
     \<lparr>GetStorageEndpointSuffix = ''core.windows.net'', url_Parse = (\<lambda>u. None),
       ContainerURL_Create = None, UploadStreamToBlockBlob = (\<lambda>blob content. None)\<rparr>
     \<lparr>runtimeInfo =
        \<lparr>OSIdentifier = ''linux'', HostNodeName = ''aks-node-1'', CollectorList = [],
          KubernetesObjects = [], NodeLogs = [], ContainerLogsNamespaces = [],
          StorageAccountName = '''', StorageSasKey = ''?sig=1'',
          StorageContainerName = ''logs'', StorageSasKeyType = ''''\<rparr>,
       creationTime = ''10:00''\<rparr>
     [(''a'', ''A'')]
   = (Some (Cause ''Storage not configured.''), []) \<and>
   ExportReader
     \<lparr>GetStorageEndpointSuffix = ''core.windows.net'', url_Parse = (\<lambda>u. None),
       ContainerURL_Create = None, UploadStreamToBlockBlob = (\<lambda>blob content. None)\<rparr>
     \<lparr>runtimeInfo =
        \<lparr>OSIdentifier = ''linux'', HostNodeName = ''aks-node-1'', CollectorList = [],
          KubernetesObjects = [], NodeLogs = [], ContainerLogsNamespaces = [],
          StorageAccountName = '''', StorageSasKey = ''?sig=1'',
          StorageContainerName = ''logs'', StorageSasKeyType = ''''\<rparr>,
       creationTime = ''10:00''\<rparr>
     ''periscope.zip'' ''PK''
   = (Some (Cause ''Storage not configured.''), [])"
  using Export_unconfigured_no_network
    [of "\<lparr>runtimeInfo =
        \<lparr>OSIdentifier = ''linux'', HostNodeName = ''aks-node-1'', CollectorList = [],
          KubernetesObjects = [], NodeLogs = [], ContainerLogsNamespaces = [],
          StorageAccountName = '''', StorageSasKey = ''?sig=1'',
          StorageContainerName = ''logs'', StorageSasKeyType = ''''\<rparr>,
       creationTime = ''10:00''\<rparr>"
       "\<lparr>GetStorageEndpointSuffix = ''core.windows.net'', url_Parse = (\<lambda>u. None),
       ContainerURL_Create = None, UploadStreamToBlockBlob = (\<lambda>blob content. None)\<rparr>"
       "[(''a'', ''A'')]" "''periscope.zip''" "''PK''"]
  by simp

section \<open>Claims about the system performance collector\<close>

lemma CheckSupported_text:
  "sublist ''connectedCluster''
     (''Not included because 'connectedCluster' is in COLLECTOR_LIST variable. Included values: '' @ rest)"
proof -
  have "''Not included because 'connectedCluster' is in COLLECTOR_LIST variable. Included values: '' @ rest
        = (''Not included because '' @ [CHR 0x27]) @ ''connectedCluster''
          @ ([CHR 0x27] @ '' is in COLLECTOR_LIST variable. Included values: '' @ rest)"
    by simp
  then show ?thesis
    by (simp only: sublist_appendI)
qed

text \<open>
  C9. \<open>CheckSupported\<close> of the system performance collector returns an error, whose
  text names \<open>connectedCluster\<close>, exactly when the collector list of the runtime
  contains \<open>connectedCluster\<close>; otherwise, and so for the empty list, it returns nil.
\<close>

theorem CheckSupported_connectedCluster:
  "((\<exists>e. SystemPerfCollector_CheckSupported rt = Some e \<and> sublist ''connectedCluster'' (err_text e))
      \<longleftrightarrow> ''connectedCluster'' \<in> set (CollectorList rt)) \<and>
   (SystemPerfCollector_CheckSupported rt = None
      \<longleftrightarrow> ''connectedCluster'' \<notin> set (CollectorList rt)) \<and>
   (CollectorList rt = [] \<longrightarrow> SystemPerfCollector_CheckSupported rt = None)"
  using CheckSupported_text
  by (auto simp: SystemPerfCollector_CheckSupported_def Contains_def simp del: append.simps)

theorem CheckSupported_connectedCluster_witness:
  "SystemPerfCollector_CheckSupported
     \<lparr>OSIdentifier = ''linux'', HostNodeName = ''aks-node-1'',
       CollectorList = [''connectedCluster''],
       KubernetesObjects = [], NodeLogs = [], ContainerLogsNamespaces = [],
       StorageAccountName = '''', StorageSasKey = '''', StorageContainerName = '''',
       StorageSasKeyType = ''''\<rparr> \<noteq> None \<and>
   SystemPerfCollector_CheckSupported
     \<lparr>OSIdentifier = ''linux'', HostNodeName = ''aks-node-1'', CollectorList = [],
       KubernetesObjects = [], NodeLogs = [], ContainerLogsNamespaces = [],
       StorageAccountName = '''', StorageSasKey = '''', StorageContainerName = '''',
       StorageSasKeyType = ''''\<rparr> = None"
  using CheckSupported_connectedCluster
    [of "\<lparr>OSIdentifier = ''linux'', HostNodeName = ''aks-node-1'',
       CollectorList = [''connectedCluster''],
       KubernetesObjects = [], NodeLogs = [], ContainerLogsNamespaces = [],
       StorageAccountName = '''', StorageSasKey = '''', StorageContainerName = '''',
       StorageSasKeyType = ''''\<rparr>"]
    CheckSupported_connectedCluster
    [of "\<lparr>OSIdentifier = ''linux'', HostNodeName = ''aks-node-1'', CollectorList = [],
       KubernetesObjects = [], NodeLogs = [], ContainerLogsNamespaces = [],
       StorageAccountName = '''', StorageSasKey = '''', StorageContainerName = '''',
       StorageSasKeyType = ''''\<rparr>"]
  by simp

lemma node_loop_not_ok:
  "\<exists>n \<in> set nodeMetrics. \<not> snd (Memory_AsInt64 n) \<Longrightarrow> node_loop nodeMetrics noderesult = None"
  by (induction nodeMetrics noderesult rule: node_loop.induct)
     (auto simp: Let_def split: prod.splits)

text \<open>
  C10. When the metrics client is made and the nodes are listed, and \<open>AsInt64\<close> is not
  ok for the memory of some node, \<open>Collect\<close> returns nil and leaves the data as it
  was: no \<open>nodes\<close> entry is stored.
\<close>

theorem SystemPerfCollector_Collect_swallows_AsInt64_failure:
  assumes "NewForConfig env = None"
      and "NodeMetricses_List env = Inr nodeMetrics"
      and "\<exists>n \<in> set nodeMetrics. \<not> snd (Memory_AsInt64 n)"
  shows "SystemPerfCollector_Collect env dat = (None, dat) \<and>
         (''nodes'' \<notin> dom dat \<longrightarrow> ''nodes'' \<notin> dom (snd (SystemPerfCollector_Collect env dat)))"
  using assms by (simp add: SystemPerfCollector_Collect_def node_loop_not_ok)

theorem SystemPerfCollector_Collect_swallows_AsInt64_failure_witness:
  "SystemPerfCollector_Collect
     \<lparr>NewForConfig = None,
       NodeMetricses_List =
         Inr [\<lparr>usage_Name = ''aks-node-1'', Cpu_MilliValue = 250, Memory_AsInt64 = (0, False)\<rparr>],
       PodMetricses_List = Inr [],
       Marshal_NodeMetrics = (\<lambda>ns. Inr ''[]''), Marshal_PodMetrics = (\<lambda>ps. Inr ''[]'')\<rparr>
     Map.empty
   = (None, Map.empty)"
  using SystemPerfCollector_Collect_swallows_AsInt64_failure
    [of "\<lparr>NewForConfig = None,
       NodeMetricses_List =
         Inr [\<lparr>usage_Name = ''aks-node-1'', Cpu_MilliValue = 250, Memory_AsInt64 = (0, False)\<rparr>],
       PodMetricses_List = Inr [],
       Marshal_NodeMetrics = (\<lambda>ns. Inr ''[]''), Marshal_PodMetrics = (\<lambda>ps. Inr ''[]'')\<rparr>"
       "[\<lparr>usage_Name = ''aks-node-1'', Cpu_MilliValue = 250, Memory_AsInt64 = (0, False)\<rparr>]"
       Map.empty]
  by simp

end
